theory Spec2Isabelle
  imports Main "HOL-Library.AList" "HOL-Library.Sublist"
begin

section \<open>JavaScript values, objects and failures\<close>

text \<open>
  The controller \<^verbatim>\<open>reservations.controller.js\<close> works on the JSON payload
  \<^verbatim>\<open>req.body.data\<close> and on the stored row \<^verbatim>\<open>res.locals.reservation\<close>.
  The fields it inspects are scalars, so a value is one of the scalar JavaScript values.
  A number is modelled as an integer (\<^verbatim>\<open>people\<close> is a count); nested arrays and
  objects as field values are outside the model.
\<close>

datatype jsval = JUndefined | JNull | JBool bool | JNum int | JStr string

text \<open>
  An object is the list of its own properties in enumeration order (the order of
  \<^verbatim>\<open>Object.keys\<close>). An object has every key once: a list that stands for an
  object has distinct keys.
\<close>

type_synonym obj = "(string \<times> jsval) list"

text \<open>\<^verbatim>\<open>data[k]\<close> and destructuring: a key that is absent reads as undefined.\<close>

definition get_prop :: "obj \<Rightarrow> string \<Rightarrow> jsval" where
  "get_prop data k = (case map_of data k of None \<Rightarrow> JUndefined | Some v \<Rightarrow> v)"

text \<open>ToBoolean: what \<^verbatim>\<open>!v\<close> and \<^verbatim>\<open>if (v)\<close> test.\<close>

fun truthy :: "jsval \<Rightarrow> bool" where
  "truthy JUndefined = False"
| "truthy JNull = False"
| "truthy (JBool b) = b"
| "truthy (JNum n) = (n \<noteq> 0)"
| "truthy (JStr s) = (s \<noteq> [])"

fun typeof :: "jsval \<Rightarrow> string" where
  "typeof JUndefined = ''undefined''"
| "typeof JNull = ''object''"
| "typeof (JBool b) = ''boolean''"
| "typeof (JNum n) = ''number''"
| "typeof (JStr s) = ''string''"

fun string_of_nat :: "nat \<Rightarrow> string" where
  "string_of_nat n =
     (if n < 10 then [char_of (48 + n)]
      else string_of_nat (n div 10) @ [char_of (48 + n mod 10)])"

text \<open>
  ToString, as a template literal \<^verbatim>\<open>${v}\<close> applies it. (An integer of 22 digits or
  more prints in exponent form in JavaScript; the model prints every integer in plain
  decimal.)
\<close>

fun js_toString :: "jsval \<Rightarrow> string" where
  "js_toString JUndefined = ''undefined''"
| "js_toString JNull = ''null''"
| "js_toString (JBool b) = (if b then ''true'' else ''false'')"
| "js_toString (JNum n) =
     (if n < 0 then CHR ''-'' # string_of_nat (nat (- n)) else string_of_nat (nat n))"
| "js_toString (JStr s) = s"

text \<open>\<^verbatim>\<open>Array.prototype.join\<close> on an array of strings.\<close>

fun join :: "string \<Rightarrow> string list \<Rightarrow> string" where
  "join sep [] = []"
| "join sep [x] = x"
| "join sep (x # y # ys) = x @ sep @ join sep (y # ys)"

text \<open>
  Object spread \<^verbatim>\<open>{ ...a, ...b }\<close>: the properties of \<open>a\<close>, then each property of
  \<open>b\<close> in turn, overwriting a key that is there (it keeps its place) and appending a
  new one. Spreading undefined adds nothing.
\<close>

definition spread :: "obj \<Rightarrow> obj \<Rightarrow> obj" where
  "spread a b = foldl (\<lambda>acc (k, v). AList.update k v acc) a b"

text \<open>
  A middleware either calls \<^verbatim>\<open>next()\<close> (the value \<open>Inr\<close>), or calls
  \<^verbatim>\<open>next({ status, message })\<close> (\<open>Reject status message\<close>), or throws a
  TypeError (reading a property of undefined, calling a method a value does not have),
  which the framework hands to its error handler in place of the rest of the chain.
\<close>

datatype failure = Reject nat string | TypeError

text \<open>
  What a handler does when the chain reaches it: the call it makes to
  \<^verbatim>\<open>reservationsService\<close> with the argument it passes, or, for \<^verbatim>\<open>read\<close>, the
  record it sends back. The service itself (the database) is not among the sources; it
  is taken to answer, and what it stores is outside the model.
\<close>

datatype outcome =
    ServiceCreate obj
  | SendRecord obj
  | ServiceUpdate obj
  | ServiceDelete jsval

text \<open>
  The platform the validators call: \<^verbatim>\<open>Date.parse\<close> (\<open>None\<close> is NaN; what it
  accepts beyond the ISO formats is up to the engine), \<^verbatim>\<open>Date.now()\<close> at the time
  of the request, and the offset of the server's local time zone in milliseconds at a
  given instant (which \<^verbatim>\<open>getDay\<close> uses).
\<close>

record env =
  Date_parse :: "string \<Rightarrow> int option"
  Date_now :: int
  LocalTZA :: "int \<Rightarrow> int"

text \<open>
  \<^verbatim>\<open>new Date(t).getDay()\<close>: the day of the week of \<open>t\<close> in local time, 0 for
  Sunday; 1 January 1970 was a Thursday.
\<close>

definition getDay :: "env \<Rightarrow> int \<Rightarrow> int" where
  "getDay e t = ((t + LocalTZA e t) div 86400000 + 4) mod 7"

section \<open>The validators\<close>

definition VALID_PROPERTIES :: "string list" where
  "VALID_PROPERTIES =
     [''reservation_id'', ''first_name'', ''last_name'', ''mobile_number'',
      ''reservation_date'', ''reservation_time'', ''people'', ''status'',
      ''created_at'', ''updated_at'']"

text \<open>
  The request body is \<open>Some data\<close> when \<^verbatim>\<open>req.body.data\<close> is an object and
  \<open>None\<close> when it is undefined; \<^verbatim>\<open>const { data = {} } = req.body\<close> reads the
  latter as the empty object.
\<close>

definition hasOnlyValidProperties :: "obj option \<Rightarrow> failure + unit" where
  "hasOnlyValidProperties body =
     (let data = (case body of None \<Rightarrow> [] | Some d \<Rightarrow> d);
          invalidFields = filter (\<lambda>field. field \<notin> set VALID_PROPERTIES) (map fst data)
      in if invalidFields \<noteq> []
         then Inl (Reject 400 (''Invalid field(s): '' @ join '', '' invalidFields))
         else Inr ())"

text \<open>
  Modelled from the spec: \<^verbatim>\<open>utils/hasProperties\<close> is required by the controller but
  is not among the sources. The specification asks that the required fields be
  ``present and non-empty'' and that a payload missing any of them be ``rejected with a
  message listing exactly the missing fields''. A field is missing when its key is
  absent or its value is undefined, null or the empty string; the rejection is a 400
  whose message lists the missing names in the order the fields were required. The
  wording of the message is not given by the specification.
\<close>

definition is_missing :: "jsval \<Rightarrow> bool" where
  "is_missing v = (v = JUndefined \<or> v = JNull \<or> v = JStr [])"

text \<open>
  Modelled from the spec: the middleware \<^verbatim>\<open>hasProperties(...properties)\<close> of
  \<^verbatim>\<open>utils/hasProperties\<close>, which is not among the sources: it collects every
  required property that is missing and rejects when there is one.
\<close>

definition hasProperties :: "string list \<Rightarrow> obj option \<Rightarrow> failure + unit" where
  "hasProperties properties body =
     (let data = (case body of None \<Rightarrow> [] | Some d \<Rightarrow> d);
          missing = filter (\<lambda>property. is_missing (get_prop data property)) properties
      in if missing \<noteq> []
         then Inl (Reject 400 (''Missing field(s): '' @ join '', '' missing))
         else Inr ())"

definition REQUIRED_PROPERTIES :: "string list" where
  "REQUIRED_PROPERTIES =
     [''first_name'', ''last_name'', ''mobile_number'', ''reservation_date'',
      ''reservation_time'', ''people'']"

definition hasRequiredProperties :: "obj option \<Rightarrow> failure + unit" where
  "hasRequiredProperties = hasProperties REQUIRED_PROPERTIES"

text \<open>\<^verbatim>\<open>req.body.data.status\<close> throws when \<^verbatim>\<open>data\<close> is undefined.\<close>

definition statusIsBooked :: "obj option \<Rightarrow> failure + unit" where
  "statusIsBooked body =
     (case body of
        None \<Rightarrow> Inl TypeError
      | Some data \<Rightarrow>
          (let status = get_prop data ''status''
           in if \<not> truthy status then Inr ()
              else if status = JStr ''booked'' then Inr ()
              else Inl (Reject 400
                     (''The reservation status is '' @ js_toString status @ ''.''))))"

text \<open>
  \<^verbatim>\<open>Date.parse\<close> converts its argument to a string first. The function returns
  true or undefined; the caller only negates it.
\<close>

definition reservationDateIsValid :: "env \<Rightarrow> jsval \<Rightarrow> bool" where
  "reservationDateIsValid e reservation_date =
     (case Date_parse e (js_toString reservation_date) of
        None \<Rightarrow> False
      | Some timestamp \<Rightarrow> True)"

text \<open>A character class \<^verbatim>\<open>[lo-hi]\<close> of a pattern, by character code.\<close>

definition char_class :: "char \<Rightarrow> char \<Rightarrow> char \<Rightarrow> bool" where
  "char_class lo hi c = ((of_char lo :: nat) \<le> of_char c \<and> (of_char c :: nat) \<le> of_char hi)"

definition is_digit :: "char \<Rightarrow> bool" where
  "is_digit c = char_class CHR ''0'' CHR ''9'' c"

text \<open>
  The pattern \<^verbatim>\<open>/^(0[0-9]|1[0-9]|2[0-3]):[0-5][0-9]$/\<close>. Without the multiline
  flag \<^verbatim>\<open>$\<close> is the end of the input, so a match is exactly five characters.
\<close>

fun matches_time_pattern :: "string \<Rightarrow> bool" where
  "matches_time_pattern [h1, h2, c, m1, m2] =
     (((h1 = CHR ''0'' \<and> is_digit h2) \<or> (h1 = CHR ''1'' \<and> is_digit h2)
        \<or> (h1 = CHR ''2'' \<and> char_class CHR ''0'' CHR ''3'' h2))
      \<and> c = CHR '':''
      \<and> char_class CHR ''0'' CHR ''5'' m1
      \<and> is_digit m2)"
| "matches_time_pattern _ = False"

text \<open>
  \<^verbatim>\<open>reservation_time.match(...)\<close>: only a string has the method; on undefined,
  null, a number or a boolean the call throws. The result (the match or null) is used
  as a truth value.
\<close>

fun reservationTimeIsValid :: "jsval \<Rightarrow> failure + bool" where
  "reservationTimeIsValid (JStr s) = Inr (matches_time_pattern s)"
| "reservationTimeIsValid _ = Inl TypeError"

text \<open>
  \<^verbatim>\<open>new Date(NaN).getDay()\<close> is NaN, and \<^verbatim>\<open>NaN == 2\<close> is false.
\<close>

definition reservationDateIsTuesday :: "env \<Rightarrow> jsval \<Rightarrow> bool" where
  "reservationDateIsTuesday e reservation_date =
     (case Date_parse e (js_toString reservation_date @ '' PST'') of
        None \<Rightarrow> False
      | Some timestamp \<Rightarrow> getDay e timestamp = 2)"

text \<open>\<^verbatim>\<open>NaN < Date.now()\<close> is false.\<close>

definition reservationNotInTheFuture :: "env \<Rightarrow> jsval \<Rightarrow> jsval \<Rightarrow> bool" where
  "reservationNotInTheFuture e reservation_date reservation_time =
     (case Date_parse e
             (js_toString reservation_date @ '' '' @ js_toString reservation_time @ '' PST'') of
        None \<Rightarrow> False
      | Some reservationDateTimestamp \<Rightarrow> reservationDateTimestamp < Date_now e)"

text \<open>\<^verbatim>\<open>s.replace(":", "")\<close> removes the first colon.\<close>

fun replace_colon :: "string \<Rightarrow> string" where
  "replace_colon [] = []"
| "replace_colon (c # cs) = (if c = CHR '':'' then cs else c # replace_colon cs)"

text \<open>
  \<^verbatim>\<open>Number(s)\<close> on a string of decimal digits. \<open>None\<close> stands for NaN, with which
  every comparison is false. The validator calls this only after the time pattern has
  matched, where the string is four digits; the other numeric literals JavaScript
  reads (the empty string, a sign, a fraction, an exponent, a radix prefix, white
  space) are not modelled and read as \<open>None\<close>, so on a string that does not match
  the time pattern the model's answer may differ from JavaScript's (the empty string
  is 0 there). No statement below rests on such a string.
\<close>

definition digit_value :: "char \<Rightarrow> int" where
  "digit_value c = int (of_char c) - 48"

definition js_Number :: "string \<Rightarrow> int option" where
  "js_Number s =
     (if s \<noteq> [] \<and> list_all is_digit s
      then Some (foldl (\<lambda>acc c. 10 * acc + digit_value c) 0 s)
      else None)"

fun reservationTimeNotAllowed :: "jsval \<Rightarrow> failure + bool" where
  "reservationTimeNotAllowed (JStr s) =
     (case js_Number (take 4 (replace_colon s)) of
        None \<Rightarrow> Inr False
      | Some reservationTime \<Rightarrow> Inr (reservationTime < 1030 \<or> reservationTime > 2130))"
| "reservationTimeNotAllowed _ = Inl TypeError"

definition hasValidInputs :: "env \<Rightarrow> obj option \<Rightarrow> failure + unit" where
  "hasValidInputs e body =
     (case body of
        None \<Rightarrow> Inl TypeError
      | Some data \<Rightarrow>
          (let people = get_prop data ''people'';
               reservation_date = get_prop data ''reservation_date'';
               reservation_time = get_prop data ''reservation_time'';
               invalidInputs0 = ''Invalid input(s):'';
               invalidInputs1 =
                 (if typeof people \<noteq> ''number'' then invalidInputs0 @ '' people''
                  else invalidInputs0);
               invalidInputs2 =
                 (if \<not> reservationDateIsValid e reservation_date
                  then invalidInputs1 @ '' reservation_date'' else invalidInputs1)
           in case reservationTimeIsValid reservation_time of
                Inl err \<Rightarrow> Inl err
              | Inr isTime \<Rightarrow>
                  (let invalidInputs =
                         (if \<not> isTime then invalidInputs2 @ '' reservation_time''
                          else invalidInputs2)
                   in if invalidInputs \<noteq> ''Invalid input(s):''
                      then Inl (Reject 400 invalidInputs)
                      else if reservationDateIsTuesday e reservation_date
                      then Inl (Reject 400 ''The restaurant is closed on Tuesdays.'')
                      else if reservationNotInTheFuture e reservation_date reservation_time
                      then Inl (Reject 400 ''Please enter future reservation date.'')
                      else (case reservationTimeNotAllowed reservation_time of
                              Inl err \<Rightarrow> Inl err
                            | Inr notAllowed \<Rightarrow>
                                if notAllowed
                                then Inl (Reject 400
                                       ''Please enter a time between 10:30 to 21:30.'')
                                else Inr ()))))"

text \<open>
  \<^verbatim>\<open>reservationsService.read\<close> is the store's lookup by id: the row, or
  undefined. \<^verbatim>\<open>req.params.reservation_id\<close> is a string.
\<close>

definition reservationExists :: "(string \<Rightarrow> obj option) \<Rightarrow> string \<Rightarrow> failure + obj" where
  "reservationExists service_read reservation_id =
     (case service_read reservation_id of
        Some reservation \<Rightarrow> Inr reservation
      | None \<Rightarrow>
          Inl (Reject 404 (''Reservation ID '' @ reservation_id @ '' does not exist.'')))"

definition statusIsNotFinished :: "obj \<Rightarrow> failure + unit" where
  "statusIsNotFinished reservation =
     (let status = get_prop reservation ''status''
      in if status \<noteq> JStr ''finished'' then Inr ()
         else Inl (Reject 400
                (''A '' @ js_toString status @ '' reservation cannot be updated.'')))"

definition hasValidStatusRequest :: "obj option \<Rightarrow> failure + unit" where
  "hasValidStatusRequest body =
     (case body of
        None \<Rightarrow> Inl TypeError
      | Some data \<Rightarrow>
          (let status = get_prop data ''status''
           in if status = JStr ''booked'' \<or> status = JStr ''seated''
                 \<or> status = JStr ''finished'' \<or> status = JStr ''cancelled''
              then Inr ()
              else Inl (Reject 400
                     (''The reservation status '' @ js_toString status @ '' is invalid.''))))"

section \<open>The handlers\<close>

definition create :: "obj option \<Rightarrow> outcome" where
  "create body =
     ServiceCreate
       (AList.update ''status'' (JStr ''booked'') (case body of None \<Rightarrow> [] | Some d \<Rightarrow> d))"

definition read :: "obj \<Rightarrow> outcome" where
  "read reservation = SendRecord reservation"

definition update :: "obj \<Rightarrow> obj option \<Rightarrow> outcome" where
  "update reservation body =
     ServiceUpdate (spread reservation (case body of None \<Rightarrow> [] | Some d \<Rightarrow> d))"

definition destroy :: "obj \<Rightarrow> outcome" where
  "destroy reservation = ServiceDelete (get_prop reservation ''reservation_id'')"

section \<open>The exported middleware chains\<close>

text \<open>
  A chain runs its middleware in order; the first failure ends it. The steps after
  \<^verbatim>\<open>reservationExists\<close> read the resolved row from \<^verbatim>\<open>res.locals\<close>: they are
  functions of that row and of the request, not of the store.
\<close>

definition and_then :: "failure + unit \<Rightarrow> (failure + 'a) \<Rightarrow> failure + 'a" where
  "and_then step rest = (case step of Inl err \<Rightarrow> Inl err | Inr u \<Rightarrow> rest)"

definition create_chain :: "env \<Rightarrow> obj option \<Rightarrow> failure + outcome" where
  "create_chain e body =
     and_then (hasOnlyValidProperties body)
    (and_then (hasRequiredProperties body)
    (and_then (hasValidInputs e body)
    (and_then (statusIsBooked body)
    (Inr (create body)))))"

definition update_steps :: "env \<Rightarrow> obj \<Rightarrow> obj option \<Rightarrow> failure + outcome" where
  "update_steps e reservation body =
     and_then (hasOnlyValidProperties body)
    (and_then (hasRequiredProperties body)
    (and_then (hasValidInputs e body)
    (Inr (update reservation body))))"

definition updateStatus_steps :: "obj \<Rightarrow> obj option \<Rightarrow> failure + outcome" where
  "updateStatus_steps reservation body =
     and_then (statusIsNotFinished reservation)
    (and_then (hasValidStatusRequest body)
    (Inr (update reservation body)))"

definition read_chain :: "(string \<Rightarrow> obj option) \<Rightarrow> string \<Rightarrow> failure + outcome" where
  "read_chain service_read reservation_id =
     (case reservationExists service_read reservation_id of
        Inl err \<Rightarrow> Inl err
      | Inr reservation \<Rightarrow> Inr (read reservation))"

definition update_chain ::
  "env \<Rightarrow> (string \<Rightarrow> obj option) \<Rightarrow> string \<Rightarrow> obj option \<Rightarrow> failure + outcome" where
  "update_chain e service_read reservation_id body =
     (case reservationExists service_read reservation_id of
        Inl err \<Rightarrow> Inl err
      | Inr reservation \<Rightarrow> update_steps e reservation body)"

definition delete_chain :: "(string \<Rightarrow> obj option) \<Rightarrow> string \<Rightarrow> failure + outcome" where
  "delete_chain service_read reservation_id =
     (case reservationExists service_read reservation_id of
        Inl err \<Rightarrow> Inl err
      | Inr reservation \<Rightarrow> Inr (destroy reservation))"

definition updateStatus_chain ::
  "(string \<Rightarrow> obj option) \<Rightarrow> string \<Rightarrow> obj option \<Rightarrow> failure + outcome" where
  "updateStatus_chain service_read reservation_id body =
     (case reservationExists service_read reservation_id of
        Inl err \<Rightarrow> Inl err
      | Inr reservation \<Rightarrow> updateStatus_steps reservation body)"

section \<open>Acceptance of a time of day\<close>

text \<open>
  A time is accepted by the two time checks of \<^verbatim>\<open>hasValidInputs\<close> when the
  pattern matches and the time is not outside the service hours.
\<close>

definition time_accepted :: "string \<Rightarrow> bool" where
  "time_accepted s =
     (reservationTimeIsValid (JStr s) = Inr True \<and>
      reservationTimeNotAllowed (JStr s) = Inr False)"

text \<open>
  The specification's wording, to compare with: two digits of hours, a colon, two digits
  of minutes, the hours in 00 to 23, the minutes in 00 to 59, and the time of day, in
  minutes after midnight, from 10:30 to 21:30 inclusive.
\<close>

fun within_service_hours :: "string \<Rightarrow> bool" where
  "within_service_hours [h1, h2, c, m1, m2] =
     (is_digit h1 \<and> is_digit h2 \<and> c = CHR '':'' \<and> is_digit m1 \<and> is_digit m2 \<and>
      (let hh = 10 * digit_value h1 + digit_value h2;
           mm = 10 * digit_value m1 + digit_value m2
       in hh \<le> 23 \<and> mm \<le> 59 \<and>
          10 * 60 + 30 \<le> 60 * hh + mm \<and> 60 * hh + mm \<le> 21 * 60 + 30))"
| "within_service_hours _ = False"

section \<open>A platform and a store for the examples\<close>

text \<open>
  A \<^verbatim>\<open>Date.parse\<close> that reads the dates of the examples: 2030-01-01 (a Tuesday)
  and 2030-01-02 (a Wednesday), alone as midnight UTC, with the suffix PST as the same
  wall-clock time eight hours west of UTC. It reads the ISO date-time
  \<^verbatim>\<open>2020-01-08T00:00:00.000Z\<close> (a Wednesday in the past) when it stands alone and,
  as an engine does once it has read the \<^verbatim>\<open>T\<close> of the ISO format, gives NaN when
  more text follows it. It reads nothing else. The server's local time is UTC and the
  request is made on 2 November 2026 at noon.
\<close>

definition example_parse :: "string \<Rightarrow> int option" where
  "example_parse s =
     (if s = ''2030-01-02'' then Some 1893542400000
      else if s = ''2030-01-02 PST'' then Some 1893571200000
      else if s = ''2030-01-02 11:00 PST'' then Some 1893610800000
      else if s = ''2030-01-02 09:00 PST'' then Some 1893603600000
      else if s = ''2030-01-02 9:30 PST'' then Some 1893605400000
      else if s = ''2030-01-02 10:29 PST'' then Some 1893608940000
      else if s = ''2030-01-02 10:30 PST'' then Some 1893609000000
      else if s = ''2030-01-02 21:30 PST'' then Some 1893648600000
      else if s = ''2030-01-02 21:31 PST'' then Some 1893648660000
      else if s = ''2030-01-01'' then Some 1893456000000
      else if s = ''2030-01-01 PST'' then Some 1893484800000
      else if s = ''2030-01-01 11:00 PST'' then Some 1893524400000
      else if s = ''2020-01-08T00:00:00.000Z'' then Some 1578441600000
      else None)"

definition example_env :: env where
  "example_env =
     \<lparr>Date_parse = example_parse, Date_now = 1793620800000, LocalTZA = (\<lambda>t. 0)\<rparr>"

text \<open>A creation payload with the six required fields and nothing else.\<close>

definition payload_with :: "jsval \<Rightarrow> jsval \<Rightarrow> jsval \<Rightarrow> obj" where
  "payload_with reservation_date reservation_time people =
     [(''first_name'', JStr ''Ada''), (''last_name'', JStr ''Byron''),
      (''mobile_number'', JStr ''555-0100''), (''reservation_date'', reservation_date),
      (''reservation_time'', reservation_time), (''people'', people)]"

definition example_payload :: obj where
  "example_payload = payload_with (JStr ''2030-01-02'') (JStr ''11:00'') (JNum 2)"

definition finished_row :: obj where
  "finished_row =
     [(''reservation_id'', JNum 1), (''first_name'', JStr ''Ada''),
      (''last_name'', JStr ''Byron''), (''mobile_number'', JStr ''555-0100''),
      (''reservation_date'', JStr ''2026-10-30''), (''reservation_time'', JStr ''12:00''),
      (''people'', JNum 2), (''status'', JStr ''finished'')]"

definition booked_row :: obj where
  "booked_row =
     [(''reservation_id'', JNum 2), (''first_name'', JStr ''Ada''),
      (''last_name'', JStr ''Byron''), (''mobile_number'', JStr ''555-0100''),
      (''reservation_date'', JStr ''2030-01-02''), (''reservation_time'', JStr ''11:00''),
      (''people'', JNum 2), (''status'', JStr ''booked'')]"

definition example_store :: "string \<Rightarrow> obj option" where
  "example_store reservation_id =
     (if reservation_id = ''1'' then Some finished_row
      else if reservation_id = ''2'' then Some booked_row
      else None)"

section \<open>Time of day\<close>

lemma matches_time_pattern_length: "matches_time_pattern s \<Longrightarrow> length s = 5"
  by (induction s rule: matches_time_pattern.induct) simp_all

lemma window_arith:
  fixes H M :: int
  assumes "0 \<le> M" "M \<le> 59"
  shows "(1030 \<le> 100 * H + M \<and> 100 * H + M \<le> 2130) = (630 \<le> 60 * H + M \<and> 60 * H + M \<le> 1290)"
proof -
  consider "H \<le> 9" | "H = 10" | "11 \<le> H \<and> H \<le> 20" | "H = 21" | "22 \<le> H" by linarith
  then show ?thesis using assms by cases auto
qed

lemma hour_arith:
  fixes a b :: int
  assumes "0 \<le> a" "0 \<le> b" "b \<le> 9"
  shows "(a = 0 \<or> a = 1 \<or> (a = 2 \<and> b \<le> 3)) = (10 * a + b \<le> 23)"
  using assms by auto

lemma minute_arith:
  fixes d e :: int
  assumes "0 \<le> e" "e \<le> 9"
  shows "(d \<le> 5) = (10 * d + e \<le> 59)"
  using assms by auto

lemma is_digit_iff: "is_digit c = (0 \<le> digit_value c \<and> digit_value c \<le> 9)"
  by (auto simp: is_digit_def char_class_def digit_value_def)

lemma char_eq_of_char: "(c = d) = (of_char c = (of_char d :: nat))"
  by simp

lemma char_is_0: "(c = CHR ''0'') = (digit_value c = 0)"
  by (simp add: char_eq_of_char [of c] digit_value_def)
lemma char_is_1: "(c = CHR ''1'') = (digit_value c = 1)"
  by (simp add: char_eq_of_char [of c] digit_value_def)
lemma char_is_2: "(c = CHR ''2'') = (digit_value c = 2)"
  by (simp add: char_eq_of_char [of c] digit_value_def)
lemma class_0_3: "char_class CHR ''0'' CHR ''3'' c = (0 \<le> digit_value c \<and> digit_value c \<le> 3)"
  by (auto simp: char_class_def digit_value_def)
lemma class_0_5: "char_class CHR ''0'' CHR ''5'' c = (0 \<le> digit_value c \<and> digit_value c \<le> 5)"
  by (auto simp: char_class_def digit_value_def)

lemma digit_not_colon: "is_digit c \<Longrightarrow> c \<noteq> CHR '':''"
  by (auto simp: is_digit_def char_class_def)

lemma matches_time_pattern_iff:
  "matches_time_pattern [h1, h2, c, m1, m2] =
     (is_digit h1 \<and> is_digit h2 \<and> c = CHR '':'' \<and> is_digit m1 \<and> is_digit m2 \<and>
      10 * digit_value h1 + digit_value h2 \<le> 23 \<and> 10 * digit_value m1 + digit_value m2 \<le> 59)"
proof (cases "is_digit h1 \<and> is_digit h2 \<and> is_digit m1 \<and> is_digit m2")
  case True
  then show ?thesis
    using hour_arith [of "digit_value h1" "digit_value h2"]
      minute_arith [of "digit_value m2" "digit_value m1"]
    by (simp add: char_is_0 char_is_1 char_is_2 class_0_3 class_0_5 is_digit_iff) blast
next
  case False
  then show ?thesis
    by (auto simp: char_is_0 char_is_1 char_is_2 class_0_3 class_0_5 is_digit_iff)
qed

lemma js_Number_four:
  "is_digit h1 \<Longrightarrow> is_digit h2 \<Longrightarrow> is_digit m1 \<Longrightarrow> is_digit m2 \<Longrightarrow>
   js_Number (take 4 (replace_colon [h1, h2, CHR '':'', m1, m2])) =
     Some (100 * (10 * digit_value h1 + digit_value h2) + (10 * digit_value m1 + digit_value m2))"
  by (simp add: js_Number_def digit_not_colon)

lemma time_accepted_five:
  "time_accepted [h1, h2, c, m1, m2] = within_service_hours [h1, h2, c, m1, m2]"
proof (cases "matches_time_pattern [h1, h2, c, m1, m2]")
  case False
  have "\<not> time_accepted [h1, h2, c, m1, m2]"
    using False by (simp add: time_accepted_def del: matches_time_pattern.simps)
  moreover have "\<not> within_service_hours [h1, h2, c, m1, m2]"
    using False by (auto simp: matches_time_pattern_iff Let_def simp del: matches_time_pattern.simps)
  ultimately show ?thesis by simp
next
  case True
  then have d: "is_digit h1" "is_digit h2" "c = CHR '':''" "is_digit m1" "is_digit m2"
    and hm: "10 * digit_value h1 + digit_value h2 \<le> 23" "10 * digit_value m1 + digit_value m2 \<le> 59"
    by (simp_all add: matches_time_pattern_iff del: matches_time_pattern.simps)
  have m0: "0 \<le> 10 * digit_value m1 + digit_value m2"
    using d by (simp add: is_digit_iff)
  have num: "js_Number (take 4 (replace_colon [h1, h2, c, m1, m2])) =
      Some (100 * (10 * digit_value h1 + digit_value h2) + (10 * digit_value m1 + digit_value m2))"
    unfolding d(3) by (rule js_Number_four [OF d(1,2,4,5)])
  have "time_accepted [h1, h2, c, m1, m2] =
      (1030 \<le> 100 * (10 * digit_value h1 + digit_value h2) + (10 * digit_value m1 + digit_value m2) \<and>
       100 * (10 * digit_value h1 + digit_value h2) + (10 * digit_value m1 + digit_value m2) \<le> 2130)"
    using True num
    by (auto simp: time_accepted_def simp del: matches_time_pattern.simps replace_colon.simps)
  moreover have "within_service_hours [h1, h2, c, m1, m2] =
      (630 \<le> 60 * (10 * digit_value h1 + digit_value h2) + (10 * digit_value m1 + digit_value m2) \<and>
       60 * (10 * digit_value h1 + digit_value h2) + (10 * digit_value m1 + digit_value m2) \<le> 1290)"
    using d hm by (simp add: Let_def)
  ultimately show ?thesis
    using window_arith [OF m0 hm(2), of "10 * digit_value h1 + digit_value h2"] by simp
qed

lemma time_accepted_iff: "time_accepted s = within_service_hours s"
proof (cases "length s = 5")
  case True
  then obtain h1 h2 c m1 m2 where "s = [h1, h2, c, m1, m2]"
    by (auto simp: length_Suc_conv eval_nat_numeral)
  then show ?thesis by (simp only: time_accepted_five)
next
  case False
  have "\<not> matches_time_pattern s" using False matches_time_pattern_length by blast
  moreover have "\<not> within_service_hours s"
    using False by (induction s rule: within_service_hours.induct) simp_all
  ultimately show ?thesis by (simp add: time_accepted_def)
qed

section \<open>Chains, spread and evaluation\<close>

lemma and_then_Inl [simp]: "and_then (Inl err) rest = Inl err"
  by (simp add: and_then_def)

lemma and_then_Inr [simp]: "and_then (Inr u) rest = rest"
  by (simp add: and_then_def)

text \<open>
  Spreading a payload over a row: a key of the payload takes the payload's value, every
  other key keeps the row's.
\<close>

lemma map_of_spread:
  "distinct (map fst b) \<Longrightarrow> map_of (spread a b) = map_of a ++ map_of b"
proof (induction b arbitrary: a)
  case Nil
  then show ?case by (simp add: spread_def)
next
  case (Cons p b)
  obtain k v where p: "p = (k, v)" by (cases p)
  have "spread a (p # b) = spread (AList.update k v a) b"
    by (simp add: spread_def p)
  moreover have "map_of (spread (AList.update k v a) b) = map_of (AList.update k v a) ++ map_of b"
    using Cons by simp
  moreover have "k \<notin> dom (map_of b)"
    using Cons.prems by (simp add: p dom_map_of_conv_image_fst)
  ultimately show ?case
    by (auto simp: p update_conv' map_add_def fun_eq_iff split: option.splits)
qed

lemma get_prop_spread:
  "distinct (map fst b) \<Longrightarrow>
   get_prop (spread a b) k = (case map_of b k of Some v \<Rightarrow> v | None \<Rightarrow> get_prop a k)"
  by (simp add: get_prop_def map_of_spread map_add_def split: option.splits)

lemma get_prop_update_same: "get_prop (AList.update k v al) k = v"
  by (simp add: get_prop_def update_conv')

text \<open>
  What \<^verbatim>\<open>hasValidInputs\<close> answers when \<^verbatim>\<open>reservation_time\<close> is a string: the
  combined message with every malformed field when there is one, and otherwise the first
  of the three rules that is broken, in the order Tuesday, past, service hours. When
  \<^verbatim>\<open>reservation_time\<close> is not a string the call of \<^verbatim>\<open>match\<close> throws.
\<close>

lemma reservationTimeNotAllowed_string: "\<exists>b. reservationTimeNotAllowed (JStr t) = Inr b"
  by (cases "js_Number (take 4 (replace_colon t))") auto

lemma hasValidInputs_string_time:
  assumes "get_prop data ''reservation_time'' = JStr t"
  shows "hasValidInputs e (Some data) =
    (let malformed =
           (if typeof (get_prop data ''people'') \<noteq> ''number'' then [''people''] else []) @
           (if \<not> reservationDateIsValid e (get_prop data ''reservation_date'')
            then [''reservation_date''] else []) @
           (if \<not> matches_time_pattern t then [''reservation_time''] else [])
     in if malformed \<noteq> []
        then Inl (Reject 400 (''Invalid input(s):'' @ concat (map (\<lambda>f. '' '' @ f) malformed)))
        else if reservationDateIsTuesday e (get_prop data ''reservation_date'')
        then Inl (Reject 400 ''The restaurant is closed on Tuesdays.'')
        else if reservationNotInTheFuture e (get_prop data ''reservation_date'') (JStr t)
        then Inl (Reject 400 ''Please enter future reservation date.'')
        else if reservationTimeNotAllowed (JStr t) = Inr True
        then Inl (Reject 400 ''Please enter a time between 10:30 to 21:30.'')
        else Inr ())"
proof -
  obtain b where b: "reservationTimeNotAllowed (JStr t) = Inr b"
    using reservationTimeNotAllowed_string by blast
  show ?thesis
    by (cases "typeof (get_prop data ''people'') = ''number''";
        cases "reservationDateIsValid e (get_prop data ''reservation_date'')";
        cases "matches_time_pattern t"; cases b)
       (simp_all add: hasValidInputs_def assms b Let_def del: reservationTimeNotAllowed.simps)
qed

lemma hasValidInputs_non_string_time:
  assumes "\<forall>t. get_prop data ''reservation_time'' \<noteq> JStr t"
  shows "hasValidInputs e (Some data) = Inl TypeError"
  using assms
  by (cases "get_prop data ''reservation_time''") (simp_all add: hasValidInputs_def Let_def)

lemma hasRequiredProperties_ok:
  "(hasRequiredProperties (Some data) = Inr ()) =
   (\<forall>p \<in> set REQUIRED_PROPERTIES. \<not> is_missing (get_prop data p))"
  by (simp add: hasRequiredProperties_def hasProperties_def filter_empty_conv Let_def)

text \<open>
  The validator accepts only a time within service hours; and when nothing else is wrong
  with the payload, its answer is decided by the time alone.
\<close>

lemma hasValidInputs_accepts_time:
  assumes "hasValidInputs e (Some data) = Inr ()"
  shows "\<exists>t. get_prop data ''reservation_time'' = JStr t \<and> within_service_hours t"
proof (cases "\<exists>t. get_prop data ''reservation_time'' = JStr t")
  case True
  then obtain t where t: "get_prop data ''reservation_time'' = JStr t" by blast
  obtain b where b: "reservationTimeNotAllowed (JStr t) = Inr b"
    using reservationTimeNotAllowed_string by blast
  have "matches_time_pattern t \<and> \<not> b"
    using assms unfolding hasValidInputs_string_time [OF t] b
    by (simp add: Let_def split: if_splits)
  then have "time_accepted t"
    by (simp add: time_accepted_def b del: reservationTimeNotAllowed.simps)
  then show ?thesis using t by (simp add: time_accepted_iff)
next
  case False
  then have "hasValidInputs e (Some data) = Inl TypeError"
    by (simp add: hasValidInputs_non_string_time)
  then show ?thesis using assms by simp
qed

lemma hasValidInputs_by_time:
  assumes t: "get_prop data ''reservation_time'' = JStr s"
    and "typeof (get_prop data ''people'') = ''number''"
    and "reservationDateIsValid e (get_prop data ''reservation_date'')"
    and "\<not> reservationDateIsTuesday e (get_prop data ''reservation_date'')"
    and "\<not> reservationNotInTheFuture e (get_prop data ''reservation_date'') (JStr s)"
  shows "hasValidInputs e (Some data) =
     (if \<not> matches_time_pattern s
      then Inl (Reject 400 ''Invalid input(s): reservation_time'')
      else if within_service_hours s then Inr ()
      else Inl (Reject 400 ''Please enter a time between 10:30 to 21:30.''))"
proof -
  obtain b where b: "reservationTimeNotAllowed (JStr s) = Inr b"
    using reservationTimeNotAllowed_string by blast
  have "matches_time_pattern s \<Longrightarrow> within_service_hours s = (\<not> b)"
    using time_accepted_iff [of s]
    by (simp add: time_accepted_def b del: reservationTimeNotAllowed.simps)
  then show ?thesis
    unfolding hasValidInputs_string_time [OF t] b
    using assms(2-5) by (auto simp: Let_def)
qed

section \<open>The examples, evaluated\<close>

lemma payload_with_fields:
  "get_prop (payload_with d t p @ extra) ''first_name'' = JStr ''Ada''"
  "get_prop (payload_with d t p @ extra) ''last_name'' = JStr ''Byron''"
  "get_prop (payload_with d t p @ extra) ''mobile_number'' = JStr ''555-0100''"
  "get_prop (payload_with d t p @ extra) ''reservation_date'' = d"
  "get_prop (payload_with d t p @ extra) ''reservation_time'' = t"
  "get_prop (payload_with d t p @ extra) ''people'' = p"
  "get_prop (payload_with d t p @ extra) ''status'' = get_prop extra ''status''"
  by (simp_all add: get_prop_def payload_with_def)

lemma payload_with_allowed:
  "hasOnlyValidProperties (Some (payload_with d t p @ extra)) =
   hasOnlyValidProperties (Some extra)"
  by (simp add: hasOnlyValidProperties_def payload_with_def VALID_PROPERTIES_def)

lemma payload_with_required:
  "\<not> is_missing d \<Longrightarrow> \<not> is_missing t \<Longrightarrow> \<not> is_missing p \<Longrightarrow>
   hasRequiredProperties (Some (payload_with d t p @ extra)) = Inr ()"
  by (simp add: hasRequiredProperties_ok REQUIRED_PROPERTIES_def payload_with_fields)
     (simp add: is_missing_def)

lemma no_extra_fields: "hasOnlyValidProperties (Some []) = Inr ()"
  by (simp add: hasOnlyValidProperties_def)

lemma example_payload_fields:
  "get_prop example_payload ''reservation_date'' = JStr ''2030-01-02''"
  "get_prop example_payload ''reservation_time'' = JStr ''11:00''"
  "get_prop example_payload ''people'' = JNum 2"
  by (simp_all add: get_prop_def example_payload_def payload_with_def)

lemma example_status_requests:
  "get_prop [(''status'', v)] ''status'' = v"
  by (simp add: get_prop_def)

lemma example_store_rows:
  "reservationExists example_store ''1'' = Inr finished_row"
  "reservationExists example_store ''2'' = Inr booked_row"
  "get_prop finished_row ''status'' = JStr ''finished''"
  "get_prop booked_row ''status'' = JStr ''booked''"
  by (simp_all add: reservationExists_def example_store_def get_prop_def finished_row_def
      booked_row_def)

lemma example_date_checks:
  "reservationDateIsValid example_env (JStr ''2030-01-02'')"
  "\<not> reservationDateIsTuesday example_env (JStr ''2030-01-02'')"
  "\<not> reservationNotInTheFuture example_env (JStr ''2030-01-02'') (JStr ''11:00'')"
  by (simp_all add: reservationDateIsValid_def reservationDateIsTuesday_def
      reservationNotInTheFuture_def example_env_def example_parse_def getDay_def)

lemma example_time_checks:
  "matches_time_pattern ''11:00''"
  "reservationTimeNotAllowed (JStr ''11:00'') = Inr False"
  by (simp_all add: js_Number_def is_digit_def char_class_def digit_value_def)

lemma example_payload_inputs:
  "hasValidInputs example_env (Some (example_payload @ extra)) = Inr ()"
  unfolding example_payload_def
  by (simp add: hasValidInputs_string_time [OF payload_with_fields(5)] payload_with_fields
      example_date_checks example_time_checks del: reservationTimeNotAllowed.simps
      matches_time_pattern.simps)

lemma create_chain_example:
  "create_chain example_env (Some (example_payload @ extra)) =
     and_then (hasOnlyValidProperties (Some extra))
    (and_then (statusIsBooked (Some extra))
    (Inr (ServiceCreate (AList.update ''status'' (JStr ''booked'') (example_payload @ extra)))))"
proof -
  have "hasOnlyValidProperties (Some (example_payload @ extra)) =
        hasOnlyValidProperties (Some extra)"
    by (simp add: example_payload_def payload_with_allowed)
  moreover have "hasRequiredProperties (Some (example_payload @ extra)) = Inr ()"
    by (simp add: example_payload_def payload_with_required is_missing_def)
  moreover have "statusIsBooked (Some (example_payload @ extra)) = statusIsBooked (Some extra)"
    by (simp add: example_payload_def statusIsBooked_def payload_with_fields)
  ultimately show ?thesis
    by (simp add: create_chain_def example_payload_inputs create_def)
qed

lemma update_steps_example:
  "update_steps example_env reservation (Some (example_payload @ extra)) =
     and_then (hasOnlyValidProperties (Some extra))
       (Inr (ServiceUpdate (spread reservation (example_payload @ extra))))"
proof -
  have "hasOnlyValidProperties (Some (example_payload @ extra)) =
        hasOnlyValidProperties (Some extra)"
    by (simp add: example_payload_def payload_with_allowed)
  moreover have "hasRequiredProperties (Some (example_payload @ extra)) = Inr ()"
    by (simp add: example_payload_def payload_with_required is_missing_def)
  ultimately show ?thesis
    by (simp add: update_steps_def example_payload_inputs update_def)
qed

lemma create_chain_with_status:
  "create_chain example_env (Some (example_payload @ [(''status'', v)])) =
     (if \<not> truthy v \<or> v = JStr ''booked''
      then Inr (ServiceCreate (example_payload @ [(''status'', JStr ''booked'')]))
      else Inl (Reject 400 (''The reservation status is '' @ js_toString v @ ''.'')))"
proof -
  have "hasOnlyValidProperties (Some [(''status'', v)]) = Inr ()"
    by (simp add: hasOnlyValidProperties_def VALID_PROPERTIES_def)
  moreover have "AList.update ''status'' (JStr ''booked'') (example_payload @ [(''status'', v)]) =
        example_payload @ [(''status'', JStr ''booked'')]"
    by (simp add: example_payload_def payload_with_def)
  ultimately show ?thesis
    by (simp add: create_chain_example statusIsBooked_def example_status_requests)
qed

lemma create_chain_without_status:
  "create_chain example_env (Some example_payload) =
     Inr (ServiceCreate (example_payload @ [(''status'', JStr ''booked'')]))"
proof -
  have "AList.update ''status'' (JStr ''booked'') example_payload =
        example_payload @ [(''status'', JStr ''booked'')]"
    by (simp add: example_payload_def payload_with_def)
  moreover have "statusIsBooked (Some []) = Inr ()"
    by (simp add: statusIsBooked_def get_prop_def)
  ultimately show ?thesis
    using create_chain_example [where extra = "[]"] by (simp add: no_extra_fields)
qed

lemma example_times_not_past:
  "\<not> reservationNotInTheFuture example_env (JStr ''2030-01-02'') (JStr ''25:00'')"
  "\<not> reservationNotInTheFuture example_env (JStr ''2030-01-02'') (JStr ''10:60'')"
  "\<not> reservationNotInTheFuture example_env (JStr ''2030-01-02'') (JStr ''9:30'')"
  "\<not> reservationNotInTheFuture example_env (JStr ''2030-01-02'') (JStr ''10:30'')"
  "\<not> reservationNotInTheFuture example_env (JStr ''2030-01-02'') (JStr ''21:30'')"
  "\<not> reservationNotInTheFuture example_env (JStr ''2030-01-02'') (JStr ''10:29'')"
  "\<not> reservationNotInTheFuture example_env (JStr ''2030-01-02'') (JStr ''21:31'')"
  by (simp_all add: reservationNotInTheFuture_def example_env_def example_parse_def)

lemma example_times_pattern:
  "\<not> matches_time_pattern ''25:00''" "\<not> matches_time_pattern ''10:60''"
  "\<not> matches_time_pattern ''9:30''" "matches_time_pattern ''10:30''"
  "matches_time_pattern ''21:30''" "matches_time_pattern ''10:29''"
  "matches_time_pattern ''21:31''"
  by (simp_all add: is_digit_def char_class_def)

lemma example_times_window:
  "within_service_hours ''10:30''" "within_service_hours ''21:30''"
  "\<not> within_service_hours ''10:29''" "\<not> within_service_hours ''21:31''"
  by (simp_all add: is_digit_def char_class_def digit_value_def)

section \<open>The claims\<close>

subsection \<open>A finished reservation\<close>

text \<open>
  Claim C1. A reservation whose status is finished is immutable: every operation that
  would change it is rejected, the full-record update as well as the status update.
  The status chain has the guard \<^verbatim>\<open>statusIsNotFinished\<close> and answers
  \<^verbatim>\<open>A finished reservation cannot be updated.\<close>; the update chain and the delete
  chain do not have it. On the finished row of the example store, a full-record update
  with a valid payload reaches the handler, which passes the overwritten row to the
  store, and a delete reaches the store too, while the status update is rejected.
\<close>

theorem finished_reservation_updated:
  "get_prop finished_row ''status'' = JStr ''finished''
   \<and> update_chain example_env example_store ''1'' (Some example_payload) =
       Inr (ServiceUpdate
         [(''reservation_id'', JNum 1), (''first_name'', JStr ''Ada''),
          (''last_name'', JStr ''Byron''), (''mobile_number'', JStr ''555-0100''),
          (''reservation_date'', JStr ''2030-01-02''), (''reservation_time'', JStr ''11:00''),
          (''people'', JNum 2), (''status'', JStr ''finished'')])
   \<and> delete_chain example_store ''1'' = Inr (ServiceDelete (JNum 1))
   \<and> updateStatus_chain example_store ''1'' (Some [(''status'', JStr ''cancelled'')]) =
       Inl (Reject 400 ''A finished reservation cannot be updated.'')"
proof -
  have "update_steps example_env finished_row (Some example_payload) =
        Inr (ServiceUpdate (spread finished_row example_payload))"
    using update_steps_example [where extra = "[]"] by (simp add: no_extra_fields)
  moreover have "spread finished_row example_payload =
         [(''reservation_id'', JNum 1), (''first_name'', JStr ''Ada''),
          (''last_name'', JStr ''Byron''), (''mobile_number'', JStr ''555-0100''),
          (''reservation_date'', JStr ''2030-01-02''), (''reservation_time'', JStr ''11:00''),
          (''people'', JNum 2), (''status'', JStr ''finished'')]"
    by (simp add: spread_def finished_row_def example_payload_def payload_with_def)
  moreover have "get_prop finished_row ''reservation_id'' = JNum 1"
    by (simp add: get_prop_def finished_row_def)
  ultimately show ?thesis
    by (simp add: update_chain_def delete_chain_def updateStatus_chain_def example_store_rows
        updateStatus_steps_def statusIsNotFinished_def destroy_def)
qed

subsection \<open>The status guard\<close>

text \<open>
  Claim C2, as amended. A status update on an existing reservation is accepted exactly
  when the stored status is not finished and the payload's status is one of booked,
  seated, finished, cancelled. On a finished reservation every request is rejected with
  \<^verbatim>\<open>A finished reservation cannot be updated.\<close>, whatever the requested status,
  cancelled included. On a reservation that is not finished, a request with any other
  status value is rejected with \<^verbatim>\<open>The reservation status <value> is invalid.\<close>,
  which names the value.
\<close>

theorem status_update_guard:
  assumes "service_read reservation_id = Some reservation"
  shows "((\<exists>out. updateStatus_chain service_read reservation_id body = Inr out) =
          (get_prop reservation ''status'' \<noteq> JStr ''finished'' \<and>
           (\<exists>data. body = Some data \<and>
              get_prop data ''status'' \<in>
                {JStr ''booked'', JStr ''seated'', JStr ''finished'', JStr ''cancelled''})))
    \<and> (get_prop reservation ''status'' = JStr ''finished'' \<longrightarrow>
         updateStatus_chain service_read reservation_id body =
           Inl (Reject 400 ''A finished reservation cannot be updated.''))
    \<and> (get_prop reservation ''status'' \<noteq> JStr ''finished'' \<and> body = Some data \<and>
         get_prop data ''status'' \<notin>
           {JStr ''booked'', JStr ''seated'', JStr ''finished'', JStr ''cancelled''} \<longrightarrow>
         updateStatus_chain service_read reservation_id body =
           Inl (Reject 400 (''The reservation status '' @
                  js_toString (get_prop data ''status'') @ '' is invalid.'')))"
  using assms
  by (cases body)
     (auto simp: updateStatus_chain_def reservationExists_def updateStatus_steps_def
      statusIsNotFinished_def hasValidStatusRequest_def Let_def)

theorem status_update_guard_witness:
  "updateStatus_chain example_store ''2'' (Some [(''status'', JStr ''foo'')]) =
     Inl (Reject 400 ''The reservation status foo is invalid.'')
   \<and> updateStatus_chain example_store ''1'' (Some [(''status'', JStr ''cancelled'')]) =
     Inl (Reject 400 ''A finished reservation cannot be updated.'')
   \<and> (\<exists>out. updateStatus_chain example_store ''2'' (Some [(''status'', JStr ''cancelled'')]) =
        Inr out)"
proof -
  have r: "example_store ''1'' = Some finished_row" "example_store ''2'' = Some booked_row"
    by (simp_all add: example_store_def)
  show ?thesis
    using status_update_guard [where service_read = example_store and reservation_id = "''2''"
        and reservation = booked_row and body = "Some [(''status'', JStr ''foo'')]"
        and data = "[(''status'', JStr ''foo'')]"]
      status_update_guard [where service_read = example_store and reservation_id = "''1''"
        and reservation = finished_row and body = "Some [(''status'', JStr ''cancelled'')]"]
      status_update_guard [where service_read = example_store and reservation_id = "''2''"
        and reservation = booked_row and body = "Some [(''status'', JStr ''cancelled'')]"]
    by (simp add: r example_store_rows example_status_requests)
qed

text \<open>
  The claim as it was stated has the message name the rejected value on every request
  with a status outside the four. The finished check comes first in the chain: on a
  finished reservation the request with status foo gets the message about the finished
  reservation, in which foo does not occur.
\<close>

theorem invalid_status_on_finished_counterexample:
  "updateStatus_chain example_store ''1'' (Some [(''status'', JStr ''foo'')]) =
     Inl (Reject 400 ''A finished reservation cannot be updated.'')
   \<and> \<not> sublist ''foo'' ''A finished reservation cannot be updated.''"
proof -
  have "updateStatus_chain example_store ''1'' (Some [(''status'', JStr ''foo'')]) =
     Inl (Reject 400 ''A finished reservation cannot be updated.'')"
    by (simp add: updateStatus_chain_def example_store_rows updateStatus_steps_def
        statusIsNotFinished_def)
  moreover have "\<not> sublist ''foo'' ''A finished reservation cannot be updated.''"
    by code_simp
  ultimately show ?thesis by (rule conjI)
qed

subsection \<open>The status of a new reservation\<close>

text \<open>
  Claim C3, as amended. On creation, a supplied status that is truthy and is not the
  string booked is rejected with \<^verbatim>\<open>The reservation status is <value>.\<close>, and the
  creation chain does not reach the store. A status that is falsy (absent, undefined,
  null, false, 0 or the empty string) or equal to booked passes the check. Whenever the
  creation chain reaches the store, the record it passes has status booked.
\<close>

theorem creation_status_forced_booked:
  "(truthy (get_prop data ''status'') \<and> get_prop data ''status'' \<noteq> JStr ''booked'' \<longrightarrow>
       statusIsBooked (Some data) =
         Inl (Reject 400 (''The reservation status is '' @
                js_toString (get_prop data ''status'') @ ''.''))
       \<and> (\<forall>out. create_chain e (Some data) \<noteq> Inr out))
   \<and> (\<not> truthy (get_prop data ''status'') \<or> get_prop data ''status'' = JStr ''booked'' \<longrightarrow>
       statusIsBooked (Some data) = Inr ())
   \<and> (create_chain e body = Inr out \<longrightarrow>
       (\<exists>stored. out = ServiceCreate stored \<and> get_prop stored ''status'' = JStr ''booked''))"
proof -
  have a: "\<forall>out. create_chain e (Some data) \<noteq> Inr out"
    if "statusIsBooked (Some data) = Inl err" for err
    using that
    by (cases "hasOnlyValidProperties (Some data)"; cases "hasRequiredProperties (Some data)";
        cases "hasValidInputs e (Some data)") (simp_all add: create_chain_def)
  have b: "\<exists>stored. out = ServiceCreate stored \<and> get_prop stored ''status'' = JStr ''booked''"
    if "create_chain e body = Inr out"
    using that
    by (cases "hasOnlyValidProperties body"; cases "hasRequiredProperties body";
        cases "hasValidInputs e body"; cases "statusIsBooked body")
       (auto simp: create_chain_def create_def get_prop_update_same)
  show ?thesis
    using a b by (auto simp: statusIsBooked_def Let_def)
qed

theorem creation_status_forced_booked_witness:
  "create_chain example_env (Some (example_payload @ [(''status'', JStr ''seated'')])) =
     Inl (Reject 400 ''The reservation status is seated.'')
   \<and> statusIsBooked (Some (example_payload @ [(''status'', JStr ''seated'')])) =
     Inl (Reject 400 ''The reservation status is seated.'')
   \<and> create_chain example_env (Some (example_payload @ [(''status'', JStr ''booked'')])) =
     Inr (ServiceCreate (example_payload @ [(''status'', JStr ''booked'')]))
   \<and> create_chain example_env (Some example_payload) =
     Inr (ServiceCreate (example_payload @ [(''status'', JStr ''booked'')]))"
proof -
  have s: "get_prop (example_payload @ [(''status'', v)]) ''status'' = v" for v
    by (simp add: example_payload_def payload_with_fields example_status_requests)
  show ?thesis
    using creation_status_forced_booked [where e = example_env
        and data = "example_payload @ [(''status'', JStr ''seated'')]"
        and body = "Some example_payload"
        and out = "ServiceCreate (example_payload @ [(''status'', JStr ''booked'')])"]
    by (simp add: create_chain_with_status create_chain_without_status s)
qed

text \<open>
  The claim as it was stated rejects every supplied status other than booked. The check
  lets a falsy value through: a payload with the status field supplied as the empty
  string, or as 0, is accepted, and the store receives the record with status booked.
\<close>

theorem falsy_status_accepted_counterexample:
  "statusIsBooked (Some (example_payload @ [(''status'', JStr [])])) = Inr ()
   \<and> create_chain example_env (Some (example_payload @ [(''status'', JStr [])])) =
     Inr (ServiceCreate (example_payload @ [(''status'', JStr ''booked'')]))
   \<and> create_chain example_env (Some (example_payload @ [(''status'', JNum 0)])) =
     Inr (ServiceCreate (example_payload @ [(''status'', JStr ''booked'')]))"
proof -
  have s: "get_prop (example_payload @ [(''status'', v)]) ''status'' = v" for v
    by (simp add: example_payload_def payload_with_fields example_status_requests)
  show ?thesis
    by (simp add: create_chain_with_status statusIsBooked_def s)
qed

subsection \<open>Malformed inputs\<close>

text \<open>
  Claim C4. A payload in which \<^verbatim>\<open>people\<close>, \<^verbatim>\<open>reservation_date\<close> or
  \<^verbatim>\<open>reservation_time\<close> is malformed is rejected with the one message
  \<^verbatim>\<open>Invalid input(s):\<close> listing every malformed field, before any business rule
  is looked at; a well-formed payload meets the rules in the order Tuesday, past,
  service hours. For a \<^verbatim>\<open>reservation_time\<close> that is a string this is lemma
  \<open>hasValidInputs_string_time\<close>. A \<^verbatim>\<open>reservation_time\<close> that is a number does
  not match the pattern either, but the validator does not report it: the call
  \<^verbatim>\<open>reservation_time.match\<close> throws a TypeError. The payload below passes the
  allow-list and the required-fields checks, and the creation chain ends with the
  TypeError instead of the message.
\<close>

theorem non_string_time_throws:
  "hasOnlyValidProperties
     (Some (payload_with (JStr ''2030-01-02'') (JNum 1030) (JNum 2))) = Inr ()
   \<and> hasRequiredProperties
     (Some (payload_with (JStr ''2030-01-02'') (JNum 1030) (JNum 2))) = Inr ()
   \<and> hasValidInputs example_env
     (Some (payload_with (JStr ''2030-01-02'') (JNum 1030) (JNum 2))) = Inl TypeError
   \<and> create_chain example_env
     (Some (payload_with (JStr ''2030-01-02'') (JNum 1030) (JNum 2))) = Inl TypeError"
proof -
  let ?data = "payload_with (JStr ''2030-01-02'') (JNum 1030) (JNum 2)"
  have a: "hasOnlyValidProperties (Some ?data) = Inr ()"
    using payload_with_allowed [where extra = "[]"] by (simp add: no_extra_fields)
  have b: "hasRequiredProperties (Some ?data) = Inr ()"
    using payload_with_required [where extra = "[]"] by (simp add: is_missing_def)
  have "get_prop ?data ''reservation_time'' = JNum 1030"
    using payload_with_fields(5) [where extra = "[]"] by simp
  then have c: "hasValidInputs example_env (Some ?data) = Inl TypeError"
    by (simp add: hasValidInputs_non_string_time)
  show ?thesis
    by (simp add: a b c create_chain_def)
qed

subsection \<open>Service hours\<close>

text \<open>
  Claim C5. A \<^verbatim>\<open>reservation_time\<close> string is accepted exactly when it is two
  digits, a colon and two digits, with the hours in 00 to 23 and the minutes in 00 to
  59, and the time lies from 10:30 to 21:30 inclusive. The code compares the four digits
  read as one number with 1030 and 2130; the specification's window is in hours and
  minutes; the two agree on every string. In particular 25:00, 10:60 and 9:30 are
  rejected, 10:30 and 21:30 are accepted, and 10:29 and 21:31 are rejected. At the
  validator: whatever \<^verbatim>\<open>hasValidInputs\<close> accepts has a time within service hours;
  and for a payload with nothing else wrong (a number of people, a valid date that is not
  a Tuesday, not in the past) the validator accepts exactly the times within service
  hours, rejecting a time that does not match the pattern with
  \<^verbatim>\<open>Invalid input(s): reservation_time\<close> and a time outside the window with
  \<^verbatim>\<open>Please enter a time between 10:30 to 21:30.\<close>
\<close>

theorem reservation_time_accepted_iff:
  "time_accepted s = within_service_hours s
   \<and> \<not> time_accepted ''25:00'' \<and> \<not> time_accepted ''10:60'' \<and> \<not> time_accepted ''9:30''
   \<and> time_accepted ''10:30'' \<and> time_accepted ''21:30''
   \<and> \<not> time_accepted ''10:29'' \<and> \<not> time_accepted ''21:31''
   \<and> (hasValidInputs e (Some data) = Inr () \<longrightarrow>
        (\<exists>t. get_prop data ''reservation_time'' = JStr t \<and> within_service_hours t))
   \<and> (get_prop data ''reservation_time'' = JStr s
        \<and> typeof (get_prop data ''people'') = ''number''
        \<and> reservationDateIsValid e (get_prop data ''reservation_date'')
        \<and> \<not> reservationDateIsTuesday e (get_prop data ''reservation_date'')
        \<and> \<not> reservationNotInTheFuture e (get_prop data ''reservation_date'') (JStr s) \<longrightarrow>
        hasValidInputs e (Some data) =
          (if \<not> matches_time_pattern s
           then Inl (Reject 400 ''Invalid input(s): reservation_time'')
           else if within_service_hours s then Inr ()
           else Inl (Reject 400 ''Please enter a time between 10:30 to 21:30.'')))"
proof -
  note time_eval = time_accepted_def is_digit_def char_class_def js_Number_def digit_value_def
  have "\<not> time_accepted ''25:00''" by (simp add: time_eval)
  moreover have "\<not> time_accepted ''10:60''" by (simp add: time_eval)
  moreover have "\<not> time_accepted ''9:30''" by (simp add: time_eval)
  moreover have "time_accepted ''10:30''" by (simp add: time_eval)
  moreover have "time_accepted ''21:30''" by (simp add: time_eval)
  moreover have "\<not> time_accepted ''10:29''" by (simp add: time_eval)
  moreover have "\<not> time_accepted ''21:31''" by (simp add: time_eval)
  moreover have "time_accepted s = within_service_hours s" by (rule time_accepted_iff)
  ultimately show ?thesis
    using hasValidInputs_accepts_time [of e data] hasValidInputs_by_time [of data s e]
    by blast
qed

theorem reservation_time_accepted_iff_witness:
  "hasValidInputs example_env (Some (payload_with (JStr ''2030-01-02'') (JStr ''25:00'') (JNum 2)))
     = Inl (Reject 400 ''Invalid input(s): reservation_time'')
   \<and> hasValidInputs example_env (Some (payload_with (JStr ''2030-01-02'') (JStr ''10:60'') (JNum 2)))
     = Inl (Reject 400 ''Invalid input(s): reservation_time'')
   \<and> hasValidInputs example_env (Some (payload_with (JStr ''2030-01-02'') (JStr ''9:30'') (JNum 2)))
     = Inl (Reject 400 ''Invalid input(s): reservation_time'')
   \<and> hasValidInputs example_env (Some (payload_with (JStr ''2030-01-02'') (JStr ''10:30'') (JNum 2)))
     = Inr ()
   \<and> hasValidInputs example_env (Some (payload_with (JStr ''2030-01-02'') (JStr ''21:30'') (JNum 2)))
     = Inr ()
   \<and> hasValidInputs example_env (Some (payload_with (JStr ''2030-01-02'') (JStr ''10:29'') (JNum 2)))
     = Inl (Reject 400 ''Please enter a time between 10:30 to 21:30.'')
   \<and> hasValidInputs example_env (Some (payload_with (JStr ''2030-01-02'') (JStr ''21:31'') (JNum 2)))
     = Inl (Reject 400 ''Please enter a time between 10:30 to 21:30.'')
   \<and> time_accepted ''12:45'' \<and> within_service_hours ''12:45''"
proof -
  have f: "get_prop (payload_with d t p) ''reservation_date'' = d"
    "get_prop (payload_with d t p) ''reservation_time'' = t"
    "get_prop (payload_with d t p) ''people'' = p" for d t p
    using payload_with_fields(4-6) [where extra = "[]"] by simp_all
  have w: "within_service_hours ''12:45''"
    by (simp add: is_digit_def char_class_def digit_value_def)
  have r: "hasValidInputs example_env (Some (payload_with (JStr ''2030-01-02'') (JStr s) (JNum 2))) =
          (if \<not> matches_time_pattern s
           then Inl (Reject 400 ''Invalid input(s): reservation_time'')
           else if within_service_hours s then Inr ()
           else Inl (Reject 400 ''Please enter a time between 10:30 to 21:30.''))"
    if "\<not> reservationNotInTheFuture example_env (JStr ''2030-01-02'') (JStr s)" for s
    using that reservation_time_accepted_iff [where e = example_env and s = s
        and data = "payload_with (JStr ''2030-01-02'') (JStr s) (JNum 2)"]
    by (simp add: f example_date_checks del: matches_time_pattern.simps
        within_service_hours.simps)
  show ?thesis
    using reservation_time_accepted_iff [where s = "''12:45''"]
    by (simp add: r example_times_not_past example_times_pattern example_times_window w
        del: matches_time_pattern.simps within_service_hours.simps)
qed

subsection \<open>A reservation in the past\<close>

text \<open>
  Claim C6. A reservation whose date and time are in the past is rejected; one second
  after the current time it is accepted, and the comparison with the current time is
  strict. The validator checks that \<^verbatim>\<open>Date.parse(reservation_date)\<close> is a number,
  but the instant it compares with \<^verbatim>\<open>Date.now()\<close> is
  \<^verbatim>\<open>Date.parse\<close> of the date, the time and \<^verbatim>\<open>PST\<close> joined by spaces, and that
  it does not check: when the joined string is not a date the instant is NaN, the
  comparison is false and the past check lets the reservation through. The date
  \<^verbatim>\<open>2020-01-08T00:00:00.000Z\<close> is valid alone and years before the request; joined
  with the time it does not parse; the validator accepts the payload and the creation
  chain passes it to the store.
\<close>

theorem unparsed_past_reservation_accepted:
  "Date_parse example_env ''2020-01-08T00:00:00.000Z'' = Some 1578441600000
   \<and> 1578441600000 + 86400000 < Date_now example_env
   \<and> reservationDateIsValid example_env (JStr ''2020-01-08T00:00:00.000Z'')
   \<and> Date_parse example_env (''2020-01-08T00:00:00.000Z'' @ '' '' @ ''11:00'' @ '' PST'') = None
   \<and> reservationNotInTheFuture example_env (JStr ''2020-01-08T00:00:00.000Z'') (JStr ''11:00'')
       = False
   \<and> hasValidInputs example_env
       (Some (payload_with (JStr ''2020-01-08T00:00:00.000Z'') (JStr ''11:00'') (JNum 2))) = Inr ()
   \<and> create_chain example_env
       (Some (payload_with (JStr ''2020-01-08T00:00:00.000Z'') (JStr ''11:00'') (JNum 2))) =
       Inr (ServiceCreate
             (payload_with (JStr ''2020-01-08T00:00:00.000Z'') (JStr ''11:00'') (JNum 2) @
              [(''status'', JStr ''booked'')]))"
proof -
  let ?data = "payload_with (JStr ''2020-01-08T00:00:00.000Z'') (JStr ''11:00'') (JNum 2)"
  have f: "get_prop ?data ''reservation_date'' = JStr ''2020-01-08T00:00:00.000Z''"
    "get_prop ?data ''reservation_time'' = JStr ''11:00''"
    "get_prop ?data ''people'' = JNum 2"
    "get_prop ?data ''status'' = JUndefined"
    using payload_with_fields(4-7) [where extra = "[]"] by (simp_all add: get_prop_def)
  have p: "Date_parse example_env ''2020-01-08T00:00:00.000Z'' = Some 1578441600000"
    "Date_parse example_env (''2020-01-08T00:00:00.000Z'' @ '' '' @ ''11:00'' @ '' PST'') = None"
    "Date_parse example_env (''2020-01-08T00:00:00.000Z'' @ '' PST'') = None"
    "1578441600000 + 86400000 < Date_now example_env"
    by (simp_all add: example_env_def example_parse_def)
  have d: "reservationDateIsValid example_env (JStr ''2020-01-08T00:00:00.000Z'')"
    "\<not> reservationDateIsTuesday example_env (JStr ''2020-01-08T00:00:00.000Z'')"
    "\<not> reservationNotInTheFuture example_env (JStr ''2020-01-08T00:00:00.000Z'') (JStr ''11:00'')"
    using p(1-3)
    by (simp_all add: reservationDateIsValid_def reservationDateIsTuesday_def
        reservationNotInTheFuture_def)
  have v: "hasValidInputs example_env (Some ?data) = Inr ()"
    by (simp add: hasValidInputs_string_time [OF f(2)] f d example_time_checks
        del: reservationTimeNotAllowed.simps matches_time_pattern.simps)
  have a: "hasOnlyValidProperties (Some ?data) = Inr ()"
    using payload_with_allowed [where extra = "[]"] by (simp add: no_extra_fields)
  have b: "hasRequiredProperties (Some ?data) = Inr ()"
    using payload_with_required [where extra = "[]"] by (simp add: is_missing_def)
  have c: "statusIsBooked (Some ?data) = Inr ()"
    by (simp add: statusIsBooked_def f)
  have u: "AList.update ''status'' (JStr ''booked'') ?data = ?data @ [(''status'', JStr ''booked'')]"
    by (simp add: payload_with_def)
  show ?thesis
    using p d by (simp add: a b c v u create_chain_def create_def)
qed

text \<open>
  When the joined string does parse, to the instant \<open>ts\<close>, the past check fires exactly
  when \<open>ts < Date.now()\<close>: a reservation before the current time is rejected by the
  validator; one at the current time exactly, or one second (or any time) after it, is
  not rejected by the past check. When the payload is otherwise valid the validator
  rejects with \<^verbatim>\<open>Please enter future reservation date.\<close> if \<open>ts\<close> is before the
  current time and accepts otherwise.
\<close>

theorem past_reservation_rejected:
  assumes "Date_parse e (js_toString (get_prop data ''reservation_date'') @ '' '' @
             js_toString (get_prop data ''reservation_time'') @ '' PST'') = Some ts"
  shows "reservationNotInTheFuture e (get_prop data ''reservation_date'')
           (get_prop data ''reservation_time'') = (ts < Date_now e)
    \<and> (ts < Date_now e \<longrightarrow> hasValidInputs e (Some data) \<noteq> Inr ())
    \<and> (Date_now e \<le> ts \<longrightarrow>
         hasValidInputs e (Some data) \<noteq> Inl (Reject 400 ''Please enter future reservation date.''))
    \<and> (typeof (get_prop data ''people'') = ''number''
         \<and> reservationDateIsValid e (get_prop data ''reservation_date'')
         \<and> \<not> reservationDateIsTuesday e (get_prop data ''reservation_date'')
         \<and> (\<exists>t. get_prop data ''reservation_time'' = JStr t \<and> time_accepted t) \<longrightarrow>
         hasValidInputs e (Some data) =
           (if ts < Date_now e then Inl (Reject 400 ''Please enter future reservation date.'')
            else Inr ()))"
proof -
  have nf: "reservationNotInTheFuture e (get_prop data ''reservation_date'')
           (get_prop data ''reservation_time'') = (ts < Date_now e)"
    using assms by (simp add: reservationNotInTheFuture_def)
  show ?thesis
  proof (cases "\<exists>t. get_prop data ''reservation_time'' = JStr t")
    case True
    then obtain t where t: "get_prop data ''reservation_time'' = JStr t" by blast
    have nf': "reservationNotInTheFuture e (get_prop data ''reservation_date'') (JStr t)
         = (ts < Date_now e)"
      using nf t by simp
    show ?thesis
      unfolding hasValidInputs_string_time [OF t] nf
      by (auto simp: t nf' Let_def time_accepted_def simp del: reservationTimeNotAllowed.simps)
  next
    case False
    then have "hasValidInputs e (Some data) = Inl TypeError"
      by (simp add: hasValidInputs_non_string_time)
    then show ?thesis using nf False by simp
  qed
qed

theorem past_reservation_rejected_witness:
  "hasValidInputs (example_env\<lparr>Date_now := 1893610801000\<rparr>) (Some example_payload) =
     Inl (Reject 400 ''Please enter future reservation date.'')
   \<and> hasValidInputs (example_env\<lparr>Date_now := 1893610800000\<rparr>) (Some example_payload) = Inr ()
   \<and> hasValidInputs (example_env\<lparr>Date_now := 1893610799000\<rparr>) (Some example_payload) = Inr ()"
proof -
  have p: "Date_parse (example_env\<lparr>Date_now := n\<rparr>)
             (js_toString (get_prop example_payload ''reservation_date'') @ '' '' @
              js_toString (get_prop example_payload ''reservation_time'') @ '' PST'') =
           Some 1893610800000" for n
    by (simp add: example_payload_fields example_env_def example_parse_def)
  have d: "reservationDateIsValid (example_env\<lparr>Date_now := n\<rparr>) (JStr ''2030-01-02'')"
    "\<not> reservationDateIsTuesday (example_env\<lparr>Date_now := n\<rparr>) (JStr ''2030-01-02'')" for n
    by (simp_all add: reservationDateIsValid_def reservationDateIsTuesday_def example_env_def
        example_parse_def getDay_def)
  have t: "time_accepted ''11:00''"
    by (simp add: time_accepted_def js_Number_def is_digit_def char_class_def digit_value_def)
  show ?thesis
    using past_reservation_rejected [OF p [of 1893610801000]]
      past_reservation_rejected [OF p [of 1893610800000]]
      past_reservation_rejected [OF p [of 1893610799000]]
    by (simp add: example_payload_fields d t)
qed

subsection \<open>Fields outside the allow-list\<close>

text \<open>
  Claim C7, as amended. The allow-list of the code is \<^verbatim>\<open>reservation_id\<close>, the six
  required fields, \<^verbatim>\<open>status\<close>, \<^verbatim>\<open>created_at\<close> and \<^verbatim>\<open>updated_at\<close>. A
  payload all of whose keys are in the list passes \<^verbatim>\<open>hasOnlyValidProperties\<close>. A
  payload with a key outside the list is rejected with status 400 and the one message
  \<^verbatim>\<open>Invalid field(s): \<close> followed by exactly the keys outside the list, in the
  payload's order, separated by a comma and a space. That is the answer of the creation
  chain, where the check comes first, and of the update chain when the id resolves to a
  row; when the id does not resolve, the update chain answers 404 before the check.
\<close>

theorem invalid_fields_rejected:
  "set VALID_PROPERTIES =
     {''reservation_id'', ''first_name'', ''last_name'', ''mobile_number'', ''reservation_date'',
      ''reservation_time'', ''people'', ''status'', ''created_at'', ''updated_at''}
   \<and> (set (map fst data) \<subseteq> set VALID_PROPERTIES \<longrightarrow> hasOnlyValidProperties (Some data) = Inr ())
   \<and> (\<not> set (map fst data) \<subseteq> set VALID_PROPERTIES \<longrightarrow>
        (let offending = filter (\<lambda>k. k \<notin> set VALID_PROPERTIES) (map fst data);
             rejection = Reject 400 (''Invalid field(s): '' @ join '', '' offending)
         in hasOnlyValidProperties (Some data) = Inl rejection
            \<and> create_chain e (Some data) = Inl rejection
            \<and> update_steps e reservation (Some data) = Inl rejection
            \<and> (service_read reservation_id = Some reservation \<longrightarrow>
                 update_chain e service_read reservation_id (Some data) = Inl rejection)
            \<and> (service_read reservation_id = None \<longrightarrow>
                 update_chain e service_read reservation_id (Some data) =
                   Inl (Reject 404
                          (''Reservation ID '' @ reservation_id @ '' does not exist.'')))))"
proof -
  have "(filter (\<lambda>k. k \<notin> set VALID_PROPERTIES) (map fst data) = []) =
        (set (map fst data) \<subseteq> set VALID_PROPERTIES)"
    by (auto simp: filter_empty_conv)
  moreover have "set VALID_PROPERTIES =
     {''reservation_id'', ''first_name'', ''last_name'', ''mobile_number'', ''reservation_date'',
      ''reservation_time'', ''people'', ''status'', ''created_at'', ''updated_at''}"
    by (simp add: VALID_PROPERTIES_def)
  ultimately show ?thesis
    by (auto simp: hasOnlyValidProperties_def create_chain_def update_steps_def update_chain_def
        reservationExists_def Let_def)
qed

theorem invalid_fields_rejected_witness:
  "create_chain example_env
     (Some ((''table'', JNum 3) # example_payload @ [(''notes'', JStr ''x'')])) =
     Inl (Reject 400 ''Invalid field(s): table, notes'')
   \<and> update_chain example_env example_store ''2''
     (Some ((''table'', JNum 3) # example_payload @ [(''notes'', JStr ''x'')])) =
     Inl (Reject 400 ''Invalid field(s): table, notes'')
   \<and> update_chain example_env example_store ''7''
     (Some ((''table'', JNum 3) # example_payload @ [(''notes'', JStr ''x'')])) =
     Inl (Reject 404 ''Reservation ID 7 does not exist.'')
   \<and> hasOnlyValidProperties (Some example_payload) = Inr ()
   \<and> hasOnlyValidProperties (Some ((''reservation_id'', JNum 2) # example_payload)) = Inr ()"
  using invalid_fields_rejected [where e = example_env and service_read = example_store
      and reservation_id = "''2''" and reservation = booked_row
      and data = "(''table'', JNum 3) # example_payload @ [(''notes'', JStr ''x'')]"]
    invalid_fields_rejected [where e = example_env and service_read = example_store
      and reservation_id = "''7''"
      and data = "(''table'', JNum 3) # example_payload @ [(''notes'', JStr ''x'')]"]
    invalid_fields_rejected [where data = example_payload]
    invalid_fields_rejected [where data = "(''reservation_id'', JNum 2) # example_payload"]
  by (simp add: example_payload_def payload_with_def example_store_def Let_def)

text \<open>
  The claim as it was stated has \<^verbatim>\<open>id\<close> in the allow-list. The code's list has
  \<^verbatim>\<open>reservation_id\<close> and not \<^verbatim>\<open>id\<close>: a payload with the key \<^verbatim>\<open>id\<close> and
  the six required fields is rejected, naming \<^verbatim>\<open>id\<close>.
\<close>

theorem id_key_rejected_counterexample:
  "hasOnlyValidProperties (Some ((''id'', JNum 1) # example_payload)) =
     Inl (Reject 400 ''Invalid field(s): id'')
   \<and> create_chain example_env (Some ((''id'', JNum 1) # example_payload)) =
     Inl (Reject 400 ''Invalid field(s): id'')
   \<and> update_chain example_env example_store ''2'' (Some ((''id'', JNum 1) # example_payload)) =
     Inl (Reject 400 ''Invalid field(s): id'')"
proof -
  have "hasOnlyValidProperties (Some ((''id'', JNum 1) # example_payload)) =
     Inl (Reject 400 ''Invalid field(s): id'')"
    by (simp add: hasOnlyValidProperties_def VALID_PROPERTIES_def example_payload_def
        payload_with_def)
  then show ?thesis
    by (simp add: create_chain_def update_chain_def update_steps_def example_store_rows)
qed

subsection \<open>Required fields\<close>

text \<open>
  Claim C8, as amended. When at least one of the six required fields
  \<^verbatim>\<open>first_name\<close>, \<^verbatim>\<open>last_name\<close>, \<^verbatim>\<open>mobile_number\<close>,
  \<^verbatim>\<open>reservation_date\<close>, \<^verbatim>\<open>reservation_time\<close>, \<^verbatim>\<open>people\<close> is missing from a
  creation payload (absent or empty), the required-fields check rejects with a message
  that lists exactly the missing fields, and the creation chain never reaches the store.
  The chain's answer is that rejection when every key of the payload is in the
  allow-list; when a key is outside it, the allow-list check comes first and the answer
  is its \<^verbatim>\<open>Invalid field(s)\<close> message.
\<close>

theorem missing_fields_rejected:
  "filter (\<lambda>p. is_missing (get_prop data p)) REQUIRED_PROPERTIES \<noteq> [] \<Longrightarrow>
     hasRequiredProperties (Some data) =
       Inl (Reject 400 (''Missing field(s): '' @
              join '', '' (filter (\<lambda>p. is_missing (get_prop data p)) REQUIRED_PROPERTIES)))
     \<and> (\<forall>out. create_chain e (Some data) \<noteq> Inr out)
     \<and> (hasOnlyValidProperties (Some data) = Inr () \<longrightarrow>
          create_chain e (Some data) =
            Inl (Reject 400 (''Missing field(s): '' @
              join '', '' (filter (\<lambda>p. is_missing (get_prop data p)) REQUIRED_PROPERTIES))))
     \<and> (hasOnlyValidProperties (Some data) \<noteq> Inr () \<longrightarrow>
          create_chain e (Some data) =
            Inl (Reject 400 (''Invalid field(s): '' @
              join '', '' (filter (\<lambda>k. k \<notin> set VALID_PROPERTIES) (map fst data)))))"
  by (cases "hasOnlyValidProperties (Some data)")
     (auto simp: hasRequiredProperties_def hasProperties_def create_chain_def
        hasOnlyValidProperties_def Let_def split: if_splits)

theorem missing_fields_rejected_witness:
  "create_chain example_env
     (Some [(''first_name'', JStr ''Ada''), (''last_name'', JStr []),
            (''reservation_date'', JStr ''2030-01-02''), (''people'', JNum 2)]) =
     Inl (Reject 400 ''Missing field(s): last_name, mobile_number, reservation_time'')"
  using missing_fields_rejected [of "[(''first_name'', JStr ''Ada''), (''last_name'', JStr []),
            (''reservation_date'', JStr ''2030-01-02''), (''people'', JNum 2)]" example_env]
  by (simp add: hasOnlyValidProperties_def REQUIRED_PROPERTIES_def VALID_PROPERTIES_def
      is_missing_def get_prop_def)

text \<open>
  The claim as it was stated has the message list the missing fields for every payload
  that misses one. A payload with \<^verbatim>\<open>first_name\<close> and a key \<^verbatim>\<open>notes\<close> misses
  five required fields, and the creation chain answers with the allow-list message.
\<close>

theorem missing_fields_behind_invalid_counterexample:
  "filter (\<lambda>p. is_missing (get_prop [(''first_name'', JStr ''Ada''), (''notes'', JStr ''x'')] p))
     REQUIRED_PROPERTIES =
     [''last_name'', ''mobile_number'', ''reservation_date'', ''reservation_time'', ''people'']
   \<and> create_chain example_env (Some [(''first_name'', JStr ''Ada''), (''notes'', JStr ''x'')]) =
     Inl (Reject 400 ''Invalid field(s): notes'')"
proof -
  have "hasOnlyValidProperties (Some [(''first_name'', JStr ''Ada''), (''notes'', JStr ''x'')]) =
     Inl (Reject 400 ''Invalid field(s): notes'')"
    by (simp add: hasOnlyValidProperties_def VALID_PROPERTIES_def)
  moreover have
    "filter (\<lambda>p. is_missing (get_prop [(''first_name'', JStr ''Ada''), (''notes'', JStr ''x'')] p))
       REQUIRED_PROPERTIES =
     [''last_name'', ''mobile_number'', ''reservation_date'', ''reservation_time'', ''people'']"
    by (simp add: REQUIRED_PROPERTIES_def is_missing_def get_prop_def)
  ultimately show ?thesis by (simp add: create_chain_def)
qed

subsection \<open>The existence guard\<close>

text \<open>
  Claim C9. Each of the four chains addressed by a reservation id (read, update, delete,
  status change) starts by looking the id up in the store. When the store has no row
  for the id, the chain ends with status 404 and the message
  \<^verbatim>\<open>Reservation ID <id> does not exist.\<close>, and no handler runs (the result is a
  failure, not a handler's outcome). When the store has a row, that row is what the
  rest of the chain works on: the read chain sends back exactly that row, and the other
  chains continue with steps that are functions of the row and the request alone, so
  the store is not consulted a second time.
\<close>

theorem existence_guard:
  "(service_read reservation_id = None \<longrightarrow>
      (let not_found =
             Inl (Reject 404 (''Reservation ID '' @ reservation_id @ '' does not exist.''))
       in read_chain service_read reservation_id = not_found
          \<and> update_chain e service_read reservation_id body = not_found
          \<and> delete_chain service_read reservation_id = not_found
          \<and> updateStatus_chain service_read reservation_id body = not_found))
   \<and> (service_read reservation_id = Some reservation \<longrightarrow>
        reservationExists service_read reservation_id = Inr reservation
        \<and> read_chain service_read reservation_id = Inr (SendRecord reservation)
        \<and> update_chain e service_read reservation_id body = update_steps e reservation body
        \<and> delete_chain service_read reservation_id = Inr (destroy reservation)
        \<and> updateStatus_chain service_read reservation_id body =
            updateStatus_steps reservation body)"
  by (simp add: reservationExists_def read_chain_def update_chain_def delete_chain_def
      updateStatus_chain_def read_def Let_def)

theorem existence_guard_witness:
  "read_chain example_store ''7'' = Inl (Reject 404 ''Reservation ID 7 does not exist.'')
   \<and> delete_chain example_store ''7'' = Inl (Reject 404 ''Reservation ID 7 does not exist.'')
   \<and> read_chain example_store ''2'' = Inr (SendRecord booked_row)
   \<and> delete_chain example_store ''2'' = Inr (ServiceDelete (JNum 2))"
  using existence_guard [where service_read = example_store and reservation_id = "''7''"
        and e = example_env and body = None]
    existence_guard [where service_read = example_store and reservation_id = "''2''"
        and reservation = booked_row and e = example_env and body = None]
  by (simp add: example_store_def destroy_def get_prop_def booked_row_def Let_def)

subsection \<open>What a status update writes\<close>

text \<open>
  Claim C10. A status update on an existing reservation that is not finished, with one
  of the four valid status values, calls the store's update with the stored row
  overwritten by the payload: a field of the payload has the payload's value, a field
  the payload does not have keeps its stored value. The chain checks nothing but the
  two statuses, so whatever else the payload carries (a \<^verbatim>\<open>reservation_date\<close> that
  is no date, for one) is written as it is.
\<close>

theorem status_update_merges_payload:
  assumes "service_read reservation_id = Some reservation"
    and "get_prop reservation ''status'' \<noteq> JStr ''finished''"
    and "get_prop data ''status'' \<in>
           {JStr ''booked'', JStr ''seated'', JStr ''finished'', JStr ''cancelled''}"
    and "distinct (map fst data)"
  shows "updateStatus_chain service_read reservation_id (Some data) =
           Inr (ServiceUpdate (spread reservation data))
         \<and> get_prop (spread reservation data) k =
             (case map_of data k of Some v \<Rightarrow> v | None \<Rightarrow> get_prop reservation k)"
  using assms
  by (auto simp: updateStatus_chain_def reservationExists_def updateStatus_steps_def
      statusIsNotFinished_def hasValidStatusRequest_def update_def get_prop_spread Let_def)

theorem status_update_merges_payload_witness:
  "updateStatus_chain example_store ''2''
     (Some [(''status'', JStr ''seated''), (''reservation_date'', JStr ''never'')]) =
     Inr (ServiceUpdate
       [(''reservation_id'', JNum 2), (''first_name'', JStr ''Ada''),
        (''last_name'', JStr ''Byron''), (''mobile_number'', JStr ''555-0100''),
        (''reservation_date'', JStr ''never''), (''reservation_time'', JStr ''11:00''),
        (''people'', JNum 2), (''status'', JStr ''seated'')])
   \<and> get_prop (spread booked_row
          [(''status'', JStr ''seated''), (''reservation_date'', JStr ''never'')])
        ''reservation_date'' = JStr ''never''
   \<and> get_prop (spread booked_row
          [(''status'', JStr ''seated''), (''reservation_date'', JStr ''never'')])
        ''people'' = JNum 2"
  using status_update_merges_payload [where service_read = example_store
      and reservation_id = "''2''" and reservation = booked_row
      and data = "[(''status'', JStr ''seated''), (''reservation_date'', JStr ''never'')]"
      and k = "''reservation_date''"]
    status_update_merges_payload [where service_read = example_store
      and reservation_id = "''2''" and reservation = booked_row
      and data = "[(''status'', JStr ''seated''), (''reservation_date'', JStr ''never'')]"
      and k = "''people''"]
  by (simp add: example_store_def booked_row_def get_prop_def spread_def)

end
